theory Spec2Isabelle
  imports Complex_Main "HOL-Library.AList"
begin

section \<open>Customer churn dashboard (app.py)\<close>

text \<open>
  The script reads ten widget values, builds a dictionary of features, pads and reorders it
  to the trained column list, calls the pickled classifier and renders the outcome.

  Conventions of the embedding:
  \<^item> Python floats (balance, salary, probabilities, ratios) are real numbers: rounding is
    not modelled, comparisons against the thresholds are exact; the one float product whose
    result is compared against the thresholds (line 158) goes through a parameter
    \<open>rnd\<close>, the rounding of a real to a double, of which nothing is assumed;
  \<^item> Python ints (credit score, age, tenure, number of products) are integers;
  \<^item> the dictionary \<open>input_data\<close> and the one-row DataFrame are association lists in
    insertion (column) order;
  \<^item> every raise is a value \<open>Inl e\<close> of a sum type;
  \<^item> what the script renders is a list of events; static headings, separators and
    styling are not recorded.
\<close>

subsection \<open>Widget values (lines 77-105)\<close>

datatype geography = France | Germany | Spain

datatype gender = Male | Female

record customer =
  credit_score :: int
  geography :: geography
  gender :: gender
  age :: int
  tenure :: int
  balance :: real
  num_products :: int
  has_credit_card :: bool
  is_active :: bool
  estimated_salary :: real

text \<open>The ranges the sidebar widgets enforce: slider and number-input bounds, select-box options.\<close>

definition widget_ranges :: "customer \<Rightarrow> bool" where
  "widget_ranges c \<longleftrightarrow>
     300 \<le> credit_score c \<and> credit_score c \<le> 850 \<and>
     18 \<le> age c \<and> age c \<le> 100 \<and>
     0 \<le> tenure c \<and> tenure c \<le> 10 \<and>
     0 \<le> balance c \<and> balance c \<le> 300000 \<and>
     num_products c \<in> set [1, 2, 3, 4] \<and>
     0 \<le> estimated_salary c \<and> estimated_salary c \<le> 200000"

subsection \<open>Exceptions\<close>

datatype exn =
  ZeroDivisionError
  | IndexError
  | KeyError "string list"
  | FileNotFoundError string
  | UnpicklingError string
  | ArtifactError string

text \<open>True division \<open>a / b\<close> of Python: raises on a zero divisor, for ints and floats alike.\<close>

definition truediv :: "real \<Rightarrow> real \<Rightarrow> exn + real" where
  "truediv a b = (if b = 0 then Inl ZeroDivisionError else Inr (a / b))"

text \<open>Indexing \<open>xs[i]\<close> with a non-negative literal index.\<close>

definition getitem :: "'a list \<Rightarrow> nat \<Rightarrow> exn + 'a" where
  "getitem xs i = (if i < length xs then Inr (xs ! i) else Inl IndexError)"

subsection \<open>Feature transform (lines 110-141)\<close>

type_synonym row = "(string \<times> real) list"

definition bool01 :: "bool \<Rightarrow> real" where
  "bool01 b = (if b then 1 else 0)"

text \<open>The dictionary literal of lines 110-122.\<close>

definition raw_features :: "customer \<Rightarrow> row" where
  "raw_features c =
     [(''CreditScore'', of_int (credit_score c)),
      (''Age'', of_int (age c)),
      (''Tenure'', of_int (tenure c)),
      (''Balance'', balance c),
      (''NumOfProducts'', of_int (num_products c)),
      (''HasCrCard'', bool01 (has_credit_card c)),
      (''IsActiveMember'', bool01 (is_active c)),
      (''EstimatedSalary'', estimated_salary c),
      (''Gender'', bool01 (gender c = Male)),
      (''Geography_Germany'', bool01 (geography c = Germany)),
      (''Geography_Spain'', bool01 (geography c = Spain))]"

text \<open>Lines 125-130: six assignments, three of them divisions that may raise.\<close>

definition engineered_features :: "customer \<Rightarrow> row \<Rightarrow> exn + row" where
  "engineered_features c d0 =
     (case truediv (of_int (tenure c)) (of_int (age c + 1)) of
        Inl e \<Rightarrow> Inl e
      | Inr tar \<Rightarrow>
       (let d1 = AList.update ''TenureAgeRatio'' tar d0 in
        case truediv (balance c) (of_int (num_products c) + 1 / 100) of
          Inl e \<Rightarrow> Inl e
        | Inr bpp \<Rightarrow>
         (let d2 = AList.update ''BalancePerProduct'' bpp d1;
              d3 = AList.update ''HighValueCustomer''
                     (if balance c > 100000 then 1 else 0) d2;
              d4 = AList.update ''ActiveSenior''
                     (if is_active c \<and> age c \<ge> 50 then 1 else 0) d3;
              d5 = AList.update ''ProductDiversity''
                     (if num_products c \<in> set [2, 3] then 1 else 0) d4
          in case truediv (balance c) (estimated_salary c + 1) of
               Inl e \<Rightarrow> Inl e
             | Inr bsr \<Rightarrow> Inr (AList.update ''BalanceSalaryRatio'' bsr d5))))"

text \<open>Lines 133-141: the credit category flags.\<close>

definition credit_category :: "customer \<Rightarrow> row \<Rightarrow> row" where
  "credit_category c d =
     (if credit_score c < 600 then
        AList.update ''CreditCategory_Excellent'' 0 (AList.update ''CreditCategory_Good'' 0 d)
      else if credit_score c < 700 then
        AList.update ''CreditCategory_Excellent'' 0 (AList.update ''CreditCategory_Good'' 1 d)
      else
        AList.update ''CreditCategory_Excellent'' 1 (AList.update ''CreditCategory_Good'' 0 d))"

definition input_data :: "customer \<Rightarrow> exn + row" where
  "input_data c =
     (case engineered_features c (raw_features c) of
        Inl e \<Rightarrow> Inl e
      | Inr d \<Rightarrow> Inr (credit_category c d))"

subsection \<open>Padding and reordering to the trained columns (lines 144-152)\<close>

text \<open>The loop of lines 147-149: a trained name that is not yet a column becomes a new,
  last column holding 0.\<close>

fun zero_fill :: "row \<Rightarrow> string list \<Rightarrow> row" where
  "zero_fill df [] = df"
| "zero_fill df (feature # rest) =
     zero_fill (if feature \<notin> set (map fst df) then AList.update feature 0 df else df) rest"

text \<open>Line 152, \<open>input_df[feature_names]\<close>: selecting a list of labels raises KeyError when
  one of them is not a column, and otherwise returns the columns in the order of the list.\<close>

definition select_columns :: "row \<Rightarrow> string list \<Rightarrow> exn + row" where
  "select_columns df names =
     (let missing = filter (\<lambda>n. map_of df n = None) names
      in if missing \<noteq> [] then Inl (KeyError missing)
         else Inr (map (\<lambda>n. (n, the (map_of df n))) names))"

definition prepare_frame :: "row \<Rightarrow> string list \<Rightarrow> exn + row" where
  "prepare_frame d feature_names = select_columns (zero_fill d feature_names) feature_names"

subsection \<open>Risk level and recommendation (lines 165-176, 234-271)\<close>

text \<open>The three variables set by lines 165-176; the colour emoji is left out.\<close>

record risk =
  risk_level :: string
  risk_class :: string

definition risk_determination :: "real \<Rightarrow> risk" where
  "risk_determination churn_prob =
     (if churn_prob \<ge> 70 then \<lparr>risk_level = ''HIGH RISK'', risk_class = ''risk-high''\<rparr>
      else if churn_prob \<ge> 40 then \<lparr>risk_level = ''MEDIUM RISK'', risk_class = ''risk-medium''\<rparr>
      else \<lparr>risk_level = ''LOW RISK'', risk_class = ''risk-low''\<rparr>)"

subsection \<open>What the script renders\<close>

datatype message = Literal string | PredictionError exn

datatype ui_event =
  StError message
  | StWarning string
  | StSuccess string
  | StInfo string
  | StMarkdown string
  | InputForm
  | RiskBanner risk real
  | Gauge real
  | Metric string real
  | MetricText string string
  | ProfileLeft customer
  | ProfileRight customer real real

text \<open>How a run of the script ends: at its last line, by \<open>st.stop()\<close>, or by an exception
  that no handler of the script catches.\<close>

datatype script_end = Completed | Stopped | Uncaught exn

text \<open>Lines 234-271: the headline call of each branch (the step list under it is static).\<close>

definition recommendation :: "real \<Rightarrow> ui_event" where
  "recommendation churn_prob =
     (if churn_prob \<ge> 70 then StError (Literal ''**URGENT ACTION REQUIRED**'')
      else if churn_prob \<ge> 40 then StWarning ''**PROACTIVE ENGAGEMENT RECOMMENDED**''
      else StSuccess ''**STANDARD ENGAGEMENT**'')"

subsection \<open>Risk factors (lines 309-328)\<close>

text \<open>The bullet character U+2022 that starts every factor, as its UTF-8 bytes.\<close>

definition bullet :: string where
  "bullet = [CHR 0xE2, CHR 0x80, CHR 0xA2]"

definition risk_factors :: "customer \<Rightarrow> string list" where
  "risk_factors c =
     (let rf0 = [];
          rf1 = (if age c > 45
                 then rf0 @ [bullet @ '' Age above 45 (higher churn correlation)''] else rf0);
          rf2 = (if geography c = Germany
                 then rf1 @ [bullet @ '' Located in Germany (highest churn region)''] else rf1);
          rf3 = (if num_products c \<ge> 3
                 then rf2 @ [bullet @ '' Has 3+ products (potential over-complexity)''] else rf2);
          rf4 = (if \<not> is_active c
                 then rf3 @ [bullet @ '' Inactive member (low engagement)''] else rf3);
          rf5 = (if balance c = 0
                 then rf4 @ [bullet @ '' Zero balance (account not utilized)''] else rf4);
          rf6 = (if tenure c < 2
                 then rf5 @ [bullet @ '' New customer (< 2 years tenure)''] else rf5)
      in rf6)"

definition render_risk_factors :: "string list \<Rightarrow> ui_event list" where
  "render_risk_factors rf =
     (if rf \<noteq> [] then map StMarkdown rf
      else [StMarkdown ''No significant risk factors identified''])"

subsection \<open>The pickled artifacts (lines 53-65)\<close>

text \<open>The classifier is opaque: two methods that return an array or raise.\<close>

record model =
  predict :: "row \<Rightarrow> exn + int list"
  predict_proba :: "row \<Rightarrow> exn + real list list"

text \<open>A file on disk is absent, is there but does not unpickle, or unpickles to a value.\<close>

datatype 'a artifact_file = Absent | Corrupt | Pickled 'a

record files =
  model_file :: "model artifact_file"
  features_file :: "string list artifact_file"

text \<open>\<open>open(path, 'rb')\<close> followed by \<open>pickle.load\<close>.\<close>

definition open_and_load :: "string \<Rightarrow> 'a artifact_file \<Rightarrow> exn + 'a" where
  "open_and_load path f =
     (case f of
        Absent \<Rightarrow> Inl (FileNotFoundError path)
      | Corrupt \<Rightarrow> Inl (UnpicklingError path)
      | Pickled x \<Rightarrow> Inr x)"

datatype load_outcome =
  Returned model "string list"
  | Halted "ui_event list"
  | Propagated exn

text \<open>The text of line 62.\<close>

definition model_files_not_found :: string where
  "model_files_not_found =
     ''Model files not found! Make sure 'customer_churn_rf_model.pkl' '' @
     ''and 'model_features.pkl' are in the same folder as this app.''"

text \<open>The handler of lines 61-63 catches FileNotFoundError only; it reports with
  \<open>st.error\<close> and ends the run with \<open>st.stop()\<close>.\<close>

definition load_handler :: "exn \<Rightarrow> load_outcome" where
  "load_handler e =
     (case e of
        FileNotFoundError p \<Rightarrow> Halted [StError (Literal model_files_not_found)]
      | _ \<Rightarrow> Propagated e)"

text \<open>Lines 55-63. The first component lists the paths passed to \<open>open\<close>, in the
  order of the calls.\<close>

definition load_model :: "files \<Rightarrow> string list \<times> load_outcome" where
  "load_model fs =
     (case open_and_load ''customer_churn_rf_model.pkl'' (model_file fs) of
        Inl e \<Rightarrow> ([''customer_churn_rf_model.pkl''], load_handler e)
      | Inr m \<Rightarrow>
         (case open_and_load ''model_features.pkl'' (features_file fs) of
            Inl e \<Rightarrow>
              ([''customer_churn_rf_model.pkl'', ''model_features.pkl''], load_handler e)
          | Inr features \<Rightarrow>
              ([''customer_churn_rf_model.pkl'', ''model_features.pkl''],
               Returned m features)))"

subsection \<open>Prediction (lines 155-332)\<close>

text \<open>Lines 156-158. Both methods are called on the same frame; \<open>rnd\<close> rounds the
  double product \<open>probability[1] * 100\<close>.\<close>

definition classify ::
  "(real \<Rightarrow> real) \<Rightarrow> model \<Rightarrow> row \<Rightarrow> exn + (int \<times> real list \<times> real)" where
  "classify rnd m input_df =
     (case predict m input_df of
        Inl e \<Rightarrow> Inl e
      | Inr ys \<Rightarrow>
     (case getitem ys 0 of
        Inl e \<Rightarrow> Inl e
      | Inr prediction \<Rightarrow>
     (case predict_proba m input_df of
        Inl e \<Rightarrow> Inl e
      | Inr ps \<Rightarrow>
     (case getitem ps 0 of
        Inl e \<Rightarrow> Inl e
      | Inr probability \<Rightarrow>
     (case getitem probability 1 of
        Inl e \<Rightarrow> Inl e
      | Inr p1 \<Rightarrow> Inr (prediction, probability, rnd (p1 * 100)))))))"

text \<open>Lines 161-328, after the classifier has answered: what has been rendered, and the
  exception that interrupted the rendering, if any.\<close>

definition show_results ::
  "(real \<Rightarrow> real) \<Rightarrow> customer \<Rightarrow> real list \<Rightarrow> real \<Rightarrow> ui_event list \<times> exn option" where
  "show_results rnd c probability churn_prob =
     (let r = risk_determination churn_prob;
          shown1 = [RiskBanner r churn_prob, Gauge churn_prob]
      in case getitem probability 0 of
           Inl e \<Rightarrow> (shown1, Some e)
         | Inr p0 \<Rightarrow>
      (let shown2 = shown1 @
             [Metric ''Stay Probability'' (rnd (p0 * 100)),
              Metric ''Churn Probability'' churn_prob,
              MetricText ''Risk Category'' (risk_level r),
              recommendation churn_prob,
              ProfileLeft c]
       in case truediv (balance c) (of_int (num_products c)) of
            Inl e \<Rightarrow> (shown2, Some e)
          | Inr per_product \<Rightarrow>
         (case truediv (of_int (tenure c)) (of_int (age c + 1)) of
            Inl e \<Rightarrow> (shown2, Some e)
          | Inr ratio \<Rightarrow>
              (shown2 @ [ProfileRight c per_product ratio] @
                 render_risk_factors (risk_factors c), None))))"

definition try_body ::
  "(real \<Rightarrow> real) \<Rightarrow> model \<Rightarrow> row \<Rightarrow> customer \<Rightarrow> ui_event list \<times> exn option" where
  "try_body rnd m input_df c =
     (case classify rnd m input_df of
        Inl e \<Rightarrow> ([], Some e)
      | Inr (prediction, probability, churn_prob) \<Rightarrow>
          show_results rnd c probability churn_prob)"

text \<open>Lines 330-332.\<close>

definition except_handler :: "exn \<Rightarrow> ui_event list" where
  "except_handler e =
     [StError (PredictionError e),
      StInfo ''Please check that all features match your trained model.'']"

text \<open>The branch of \<open>if predict_button\<close>: lines 110-152 run outside the \<open>try\<close>.\<close>

definition predict_clicked ::
  "(real \<Rightarrow> real) \<Rightarrow> model \<Rightarrow> string list \<Rightarrow> customer \<Rightarrow> ui_event list \<times> script_end" where
  "predict_clicked rnd m feature_names c =
     (case input_data c of
        Inl e \<Rightarrow> ([], Uncaught e)
      | Inr d \<Rightarrow>
     (case prepare_frame d feature_names of
        Inl e \<Rightarrow> ([], Uncaught e)
      | Inr input_df \<Rightarrow>
     (case try_body rnd m input_df c of
        (shown, None) \<Rightarrow> (shown, Completed)
      | (shown, Some e) \<Rightarrow> (shown @ except_handler e, Completed))))"

subsection \<open>One run of the script\<close>

text \<open>The result lists the paths opened by the one call of \<open>load_model\<close> (line 65),
  what was rendered, and how the run ended.\<close>

definition app ::
  "(real \<Rightarrow> real) \<Rightarrow> files \<Rightarrow> customer \<Rightarrow> bool \<Rightarrow>
     string list \<times> ui_event list \<times> script_end" where
  "app rnd fs c predict_button =
     (let (opened, outcome) = load_model fs
      in case outcome of
           Halted shown \<Rightarrow> (opened, shown, Stopped)
         | Propagated e \<Rightarrow> (opened, [], Uncaught e)
         | Returned m feature_names \<Rightarrow>
            (let (shown, fin) =
                   (if predict_button then predict_clicked rnd m feature_names c
                    else ([StInfo (''Enter customer information in the sidebar and '' @
                                   ''click 'PREDICT CHURN RISK' to get started'')], Completed))
             in (opened, InputForm # shown, fin)))"

subsection \<open>Sample inputs\<close>

text \<open>The default values of the widgets (Scenario A of the specification).\<close>

definition scenario_A :: customer where
  "scenario_A =
     \<lparr>credit_score = 650, geography = France, gender = Male, age = 35, tenure = 5,
      balance = 75000, num_products = 1, has_credit_card = True, is_active = True,
      estimated_salary = 60000\<rparr>"

text \<open>The high-risk sample of the welcome screen (Scenario B), with a non-zero balance.\<close>

definition scenario_B :: customer where
  "scenario_B =
     \<lparr>credit_score = 650, geography = Germany, gender = Male, age = 55, tenure = 10,
      balance = 75000, num_products = 4, has_credit_card = True, is_active = False,
      estimated_salary = 60000\<rparr>"

text \<open>No rounding at all, for evaluating runs on sample inputs.\<close>

definition exact :: "real \<Rightarrow> real" where
  "exact x = x"

text \<open>Sample classifiers: one that always answers; one whose \<open>predict\<close> always raises;
  one whose \<open>predict\<close> raises an error naming the columns of the frame it was given; one
  whose \<open>predict_proba\<close> does so; and one that answers only on a frame with the columns
  Balance, Age in this order.\<close>

definition steady_model :: model where
  "steady_model =
     \<lparr>predict = (\<lambda>df. Inr [0]), predict_proba = (\<lambda>df. Inr [ [1 / 2, 1 / 2] ])\<rparr>"

definition failing_model :: model where
  "failing_model =
     \<lparr>predict = (\<lambda>df. Inl (ArtifactError ''feature names mismatch'')),
      predict_proba = (\<lambda>df. Inr [ [1 / 2, 1 / 2] ])\<rparr>"

definition spy_model :: model where
  "spy_model =
     \<lparr>predict = (\<lambda>df. Inl (KeyError (map fst df))),
      predict_proba = (\<lambda>df. Inr [ [1 / 2, 1 / 2] ])\<rparr>"

definition proba_spy_model :: model where
  "proba_spy_model =
     \<lparr>predict = (\<lambda>df. Inr [0]),
      predict_proba = (\<lambda>df. Inl (KeyError (map fst df)))\<rparr>"

definition frame_sensitive_model :: model where
  "frame_sensitive_model =
     \<lparr>predict = (\<lambda>df. if map fst df = [''Balance'', ''Age''] then Inr [0]
                        else Inl (ArtifactError ''unexpected columns'')),
      predict_proba = (\<lambda>df. Inr [ [1 / 2, 1 / 2] ])\<rparr>"



text \<open>Both files load; the classifier always raises.\<close>

definition failing_model_files :: files where
  "failing_model_files =
     \<lparr>model_file = Pickled failing_model, features_file = Pickled [''Age'']\<rparr>"

subsection \<open>The risk-factor rules as the specification words them\<close>

text \<open>Six independent rules in a fixed order, each with its explanation; the emitted list
  is the explanations of the rules that hold, in that order.\<close>

definition risk_rules_spec :: "((customer \<Rightarrow> bool) \<times> string) list" where
  "risk_rules_spec =
     [(\<lambda>c. age c > 45, bullet @ '' Age above 45 (higher churn correlation)''),
      (\<lambda>c. geography c = Germany, bullet @ '' Located in Germany (highest churn region)''),
      (\<lambda>c. num_products c \<ge> 3, bullet @ '' Has 3+ products (potential over-complexity)''),
      (\<lambda>c. \<not> is_active c, bullet @ '' Inactive member (low engagement)''),
      (\<lambda>c. balance c = 0, bullet @ '' Zero balance (account not utilized)''),
      (\<lambda>c. tenure c < 2, bullet @ '' New customer (< 2 years tenure)'')]"

definition risk_factors_spec :: "customer \<Rightarrow> string list" where
  "risk_factors_spec c = map snd (filter (\<lambda>r. fst r c) risk_rules_spec)"

section \<open>Properties\<close>

text \<open>
  C1. The risk level is a total three-way partition of the churn probability with inclusive
  lower bounds: at least 70 is HIGH, at least 40 and below 70 is MEDIUM, below 40 is LOW;
  70 itself is HIGH and 40 itself is MEDIUM, and every value gets exactly one of the three
  levels.
\<close>

theorem risk_tier_partition:
  "(p \<ge> 70 \<longrightarrow> risk_level (risk_determination p) = ''HIGH RISK'') \<and>
   (40 \<le> p \<and> p < 70 \<longrightarrow> risk_level (risk_determination p) = ''MEDIUM RISK'') \<and>
   (p < 40 \<longrightarrow> risk_level (risk_determination p) = ''LOW RISK'') \<and>
   risk_level (risk_determination 70) = ''HIGH RISK'' \<and>
   risk_level (risk_determination 40) = ''MEDIUM RISK'' \<and>
   (\<exists>!t. t \<in> {''HIGH RISK'', ''MEDIUM RISK'', ''LOW RISK''} \<and>
          risk_level (risk_determination p) = t)"
  by (auto simp: risk_determination_def)

theorem risk_tier_partition_witness:
  "risk_level (risk_determination 85) = ''HIGH RISK'' \<and>
   risk_level (risk_determination 55) = ''MEDIUM RISK'' \<and>
   risk_level (risk_determination 12) = ''LOW RISK'' \<and>
   risk_level (risk_determination 0) = ''LOW RISK'' \<and>
   risk_level (risk_determination 100) = ''HIGH RISK''"
  using risk_tier_partition [of 85] risk_tier_partition [of 55] risk_tier_partition [of 12]
    risk_tier_partition [of 0] risk_tier_partition [of 100]
  by simp

subsection \<open>Auxiliary facts about the transform\<close>

lemma products_offset_nonzero: "(of_int n :: real) + 1 / 100 \<noteq> 0"
proof
  assume "(of_int n :: real) + 1 / 100 = 0"
  then have "(of_int (100 * n + 1) :: real) = 0" by simp
  then have "100 * n + 1 = 0" by (simp only: of_int_eq_0_iff)
  then show False by presburger
qed

lemma engineered_features_returns:
  assumes "age c \<noteq> - 1" and "estimated_salary c \<noteq> - 1"
  shows "engineered_features c d0 =
     Inr (AList.update ''BalanceSalaryRatio'' (balance c / (estimated_salary c + 1))
         (AList.update ''ProductDiversity'' (if num_products c \<in> set [2, 3] then 1 else 0)
         (AList.update ''ActiveSenior'' (if is_active c \<and> age c \<ge> 50 then 1 else 0)
         (AList.update ''HighValueCustomer'' (if balance c > 100000 then 1 else 0)
         (AList.update ''BalancePerProduct'' (balance c / (of_int (num_products c) + 1 / 100))
         (AList.update ''TenureAgeRatio'' (of_int (tenure c) / of_int (age c + 1)) d0))))))"
proof -
  have a: "(of_int (age c + 1) :: real) \<noteq> 0" using assms(1) by simp
  have s: "estimated_salary c + 1 \<noteq> 0" using assms(2) by linarith
  show ?thesis
    unfolding engineered_features_def truediv_def Let_def
    by (simp only: a s products_offset_nonzero if_False sum.case)
qed

lemma input_data_returns:
  assumes "age c \<noteq> - 1" and "estimated_salary c \<noteq> - 1"
  shows "\<exists>d0. engineered_features c (raw_features c) = Inr d0 \<and>
              input_data c = Inr (credit_category c d0)"
  using engineered_features_returns [OF assms] by (simp add: input_data_def)

lemma input_data_raises:
  assumes "age c = - 1 \<or> estimated_salary c = - 1"
  shows "input_data c = Inl ZeroDivisionError"
  using assms
  by (auto simp: input_data_def engineered_features_def truediv_def Let_def
      products_offset_nonzero)

lemma widget_ranges_no_raise:
  assumes "widget_ranges c"
  shows "age c \<noteq> - 1" and "estimated_salary c \<noteq> - 1"
  using assms by (auto simp: widget_ranges_def)

lemma scenario_A_row:
  "input_data scenario_A =
     Inr [(''CreditScore'', 650), (''Age'', 35), (''Tenure'', 5),
          (''Balance'', 75000), (''NumOfProducts'', 1), (''HasCrCard'', 1),
          (''IsActiveMember'', 1), (''EstimatedSalary'', 60000),
          (''Gender'', 1), (''Geography_Germany'', 0),
          (''Geography_Spain'', 0), (''TenureAgeRatio'', 5 / 36),
          (''BalancePerProduct'', 7500000 / 101), (''HighValueCustomer'', 0),
          (''ActiveSenior'', 0), (''ProductDiversity'', 0),
          (''BalanceSalaryRatio'', 75000 / 60001),
          (''CreditCategory_Good'', 1), (''CreditCategory_Excellent'', 0)]"
  by (simp add: input_data_def engineered_features_def credit_category_def raw_features_def
      scenario_A_def truediv_def bool01_def)

lemma scenario_A_fields:
  "age scenario_A = 35" "estimated_salary scenario_A = 60000" "credit_score scenario_A = 650"
  "tenure scenario_A = 5" "balance scenario_A = 75000" "num_products scenario_A = 1"
  "is_active scenario_A" "geography scenario_A = France"
  by (simp_all add: scenario_A_def)

lemma scenario_A_in_range: "widget_ranges scenario_A"
  by (simp add: widget_ranges_def scenario_A_def)

text \<open>
  C2. Whenever the transform returns (its divisors \<open>Age + 1\<close> and \<open>EstimatedSalary + 1\<close>
  are not zero, which holds for every record the widgets can produce), the dictionary holds
  TenureAgeRatio = Tenure / (Age + 1), BalancePerProduct = Balance / (NumOfProducts + 0.01),
  HighValueCustomer = 1 iff Balance > 100000, ActiveSenior = 1 iff active and Age >= 50,
  ProductDiversity = 1 iff NumOfProducts is 2 or 3, BalanceSalaryRatio =
  Balance / (EstimatedSalary + 1); and for the Scenario A record the values are 5/36,
  75000/1.01, 0, 0, 0, 75000/60001, with CreditCategory_Good = 1 and
  CreditCategory_Excellent = 0.
\<close>

theorem engineered_feature_values:
  "(age c \<noteq> - 1 \<and> estimated_salary c \<noteq> - 1 \<longrightarrow>
     (\<exists>d. input_data c = Inr d \<and>
        map_of d ''TenureAgeRatio'' = Some (of_int (tenure c) / (of_int (age c) + 1)) \<and>
        map_of d ''BalancePerProduct'' =
          Some (balance c / (of_int (num_products c) + 1 / 100)) \<and>
        map_of d ''HighValueCustomer'' = Some (if balance c > 100000 then 1 else 0) \<and>
        map_of d ''ActiveSenior'' = Some (if is_active c \<and> age c \<ge> 50 then 1 else 0) \<and>
        map_of d ''ProductDiversity'' =
          Some (if num_products c = 2 \<or> num_products c = 3 then 1 else 0) \<and>
        map_of d ''BalanceSalaryRatio'' = Some (balance c / (estimated_salary c + 1)))) \<and>
   (\<exists>d. input_data scenario_A = Inr d \<and>
        map_of d ''TenureAgeRatio'' = Some (5 / 36) \<and>
        map_of d ''BalancePerProduct'' = Some (75000 / (101 / 100)) \<and>
        map_of d ''HighValueCustomer'' = Some 0 \<and>
        map_of d ''ActiveSenior'' = Some 0 \<and>
        map_of d ''ProductDiversity'' = Some 0 \<and>
        map_of d ''BalanceSalaryRatio'' = Some (75000 / 60001) \<and>
        map_of d ''CreditCategory_Good'' = Some 1 \<and>
        map_of d ''CreditCategory_Excellent'' = Some 0)"
proof (intro conjI impI)
  assume ok: "age c \<noteq> - 1 \<and> estimated_salary c \<noteq> - 1"
  then have e: "engineered_features c (raw_features c) =
     Inr (AList.update ''BalanceSalaryRatio'' (balance c / (estimated_salary c + 1))
         (AList.update ''ProductDiversity'' (if num_products c \<in> set [2, 3] then 1 else 0)
         (AList.update ''ActiveSenior'' (if is_active c \<and> age c \<ge> 50 then 1 else 0)
         (AList.update ''HighValueCustomer'' (if balance c > 100000 then 1 else 0)
         (AList.update ''BalancePerProduct'' (balance c / (of_int (num_products c) + 1 / 100))
         (AList.update ''TenureAgeRatio'' (of_int (tenure c) / of_int (age c + 1))
            (raw_features c)))))))"
    using engineered_features_returns [of c "raw_features c"] by blast
  show "\<exists>d. input_data c = Inr d \<and>
        map_of d ''TenureAgeRatio'' = Some (of_int (tenure c) / (of_int (age c) + 1)) \<and>
        map_of d ''BalancePerProduct'' =
          Some (balance c / (of_int (num_products c) + 1 / 100)) \<and>
        map_of d ''HighValueCustomer'' = Some (if balance c > 100000 then 1 else 0) \<and>
        map_of d ''ActiveSenior'' = Some (if is_active c \<and> age c \<ge> 50 then 1 else 0) \<and>
        map_of d ''ProductDiversity'' =
          Some (if num_products c = 2 \<or> num_products c = 3 then 1 else 0) \<and>
        map_of d ''BalanceSalaryRatio'' = Some (balance c / (estimated_salary c + 1))"
    by (simp add: input_data_def e credit_category_def AList.update_conv')
next
  show "\<exists>d. input_data scenario_A = Inr d \<and>
        map_of d ''TenureAgeRatio'' = Some (5 / 36) \<and>
        map_of d ''BalancePerProduct'' = Some (75000 / (101 / 100)) \<and>
        map_of d ''HighValueCustomer'' = Some 0 \<and>
        map_of d ''ActiveSenior'' = Some 0 \<and>
        map_of d ''ProductDiversity'' = Some 0 \<and>
        map_of d ''BalanceSalaryRatio'' = Some (75000 / 60001) \<and>
        map_of d ''CreditCategory_Good'' = Some 1 \<and>
        map_of d ''CreditCategory_Excellent'' = Some 0"
    by (simp add: scenario_A_row)
qed

theorem engineered_feature_values_witness:
  "age scenario_A \<noteq> - 1 \<and> estimated_salary scenario_A \<noteq> - 1 \<and>
   (\<exists>d. input_data scenario_A = Inr d \<and>
        map_of d ''TenureAgeRatio'' = Some (5 / 36) \<and>
        map_of d ''BalancePerProduct'' = Some (7500000 / 101) \<and>
        map_of d ''BalanceSalaryRatio'' = Some (75000 / 60001))"
  using engineered_feature_values [of scenario_A]
  by (auto simp: scenario_A_fields)

text \<open>
  C5. Whenever the transform returns, the two credit flags of the dictionary follow the
  credit score: below 600 both are 0, from 600 and below 700 Good is 1 and Excellent is 0,
  from 700 on Good is 0 and Excellent is 1; both are never 1 together.
\<close>

theorem credit_flags_exclusive:
  "age c \<noteq> - 1 \<and> estimated_salary c \<noteq> - 1 \<longrightarrow>
     (\<exists>d. input_data c = Inr d \<and>
        (credit_score c < 600 \<longrightarrow>
           map_of d ''CreditCategory_Good'' = Some 0 \<and>
           map_of d ''CreditCategory_Excellent'' = Some 0) \<and>
        (600 \<le> credit_score c \<and> credit_score c < 700 \<longrightarrow>
           map_of d ''CreditCategory_Good'' = Some 1 \<and>
           map_of d ''CreditCategory_Excellent'' = Some 0) \<and>
        (700 \<le> credit_score c \<longrightarrow>
           map_of d ''CreditCategory_Good'' = Some 0 \<and>
           map_of d ''CreditCategory_Excellent'' = Some 1) \<and>
        \<not> (map_of d ''CreditCategory_Good'' = Some 1 \<and>
           map_of d ''CreditCategory_Excellent'' = Some 1))"
proof
  assume "age c \<noteq> - 1 \<and> estimated_salary c \<noteq> - 1"
  then obtain d0 where d0: "input_data c = Inr (credit_category c d0)"
    using input_data_returns [of c] by blast
  show "\<exists>d. input_data c = Inr d \<and>
        (credit_score c < 600 \<longrightarrow>
           map_of d ''CreditCategory_Good'' = Some 0 \<and>
           map_of d ''CreditCategory_Excellent'' = Some 0) \<and>
        (600 \<le> credit_score c \<and> credit_score c < 700 \<longrightarrow>
           map_of d ''CreditCategory_Good'' = Some 1 \<and>
           map_of d ''CreditCategory_Excellent'' = Some 0) \<and>
        (700 \<le> credit_score c \<longrightarrow>
           map_of d ''CreditCategory_Good'' = Some 0 \<and>
           map_of d ''CreditCategory_Excellent'' = Some 1) \<and>
        \<not> (map_of d ''CreditCategory_Good'' = Some 1 \<and>
           map_of d ''CreditCategory_Excellent'' = Some 1)"
    by (simp add: d0 credit_category_def AList.update_conv')
qed

theorem credit_flags_exclusive_witness:
  "age scenario_A \<noteq> - 1 \<and> estimated_salary scenario_A \<noteq> - 1 \<and>
   600 \<le> credit_score scenario_A \<and> credit_score scenario_A < 700 \<and>
   (\<exists>d. input_data scenario_A = Inr d \<and>
        map_of d ''CreditCategory_Good'' = Some 1 \<and>
        map_of d ''CreditCategory_Excellent'' = Some 0) \<and>
   (\<exists>d. input_data (scenario_A\<lparr>credit_score := 599\<rparr>) = Inr d \<and>
        map_of d ''CreditCategory_Good'' = Some 0 \<and>
        map_of d ''CreditCategory_Excellent'' = Some 0) \<and>
   (\<exists>d. input_data (scenario_A\<lparr>credit_score := 700\<rparr>) = Inr d \<and>
        map_of d ''CreditCategory_Good'' = Some 0 \<and>
        map_of d ''CreditCategory_Excellent'' = Some 1)"
  using credit_flags_exclusive [of scenario_A]
    credit_flags_exclusive [of "scenario_A\<lparr>credit_score := 599\<rparr>"]
    credit_flags_exclusive [of "scenario_A\<lparr>credit_score := 700\<rparr>"]
  by (auto simp: scenario_A_fields)

subsection \<open>Auxiliary facts about padding and reordering\<close>

lemma not_column_iff: "(f \<notin> fst ` set df) = (map_of df f = None)"
  by (simp add: map_of_eq_None_iff)

lemma map_of_zero_fill:
  "map_of (zero_fill df names) n =
     (case map_of df n of Some v \<Rightarrow> Some v | None \<Rightarrow> if n \<in> set names then Some 0 else None)"
proof (induction names arbitrary: df)
  case Nil
  then show ?case by (simp split: option.splits)
next
  case (Cons f fs)
  then show ?case
    by (simp add: AList.update_conv' not_column_iff split: option.splits)
qed

lemma select_columns_total:
  assumes "\<forall>n \<in> set names. map_of df n \<noteq> None"
  shows "select_columns df names = Inr (map (\<lambda>n. (n, the (map_of df n))) names)"
  using assms by (auto simp: select_columns_def Let_def filter_empty_conv)

lemma prepare_frame_eq:
  "prepare_frame d names =
     Inr (map (\<lambda>n. (n, case map_of d n of Some v \<Rightarrow> v | None \<Rightarrow> 0)) names)"
proof -
  have "\<forall>n \<in> set names. map_of (zero_fill d names) n \<noteq> None"
    by (simp add: map_of_zero_fill split: option.splits)
  then have "prepare_frame d names =
      Inr (map (\<lambda>n. (n, the (map_of (zero_fill d names) n))) names)"
    unfolding prepare_frame_def by (rule select_columns_total)
  also have "map (\<lambda>n. (n, the (map_of (zero_fill d names) n))) names =
     map (\<lambda>n. (n, case map_of d n of Some v \<Rightarrow> v | None \<Rightarrow> 0)) names"
    by (rule map_cong) (auto simp: map_of_zero_fill split: option.splits)
  finally show ?thesis .
qed

lemma map_of_keyed_map:
  "map_of (map (\<lambda>n. (n, g n)) names) n = (if n \<in> set names then Some (g n) else None)"
  by (induction names) auto

lemma map_of_filter_keys:
  "n \<in> S \<Longrightarrow> map_of (filter (\<lambda>kv. fst kv \<in> S) d) n = map_of d n"
  by (induction d) auto

subsection \<open>Auxiliary facts about the call of the classifier\<close>

lemma predict_clicked_on_frame:
  assumes "input_data c = Inr d" and "prepare_frame d names = Inr df"
  shows "predict_clicked rnd m names c =
     (case try_body rnd m df c of
        (shown, None) \<Rightarrow> (shown, Completed)
      | (shown, Some e) \<Rightarrow> (shown @ except_handler e, Completed))"
  using assms by (simp add: predict_clicked_def)

lemma classify_predict_raises:
  "predict m df = Inl e \<Longrightarrow> classify rnd m df = Inl e"
  by (simp add: classify_def)

lemma classify_proba_raises:
  "predict m df = Inr (y # ys) \<Longrightarrow> predict_proba m df = Inl e \<Longrightarrow> classify rnd m df = Inl e"
  by (simp add: classify_def getitem_def)

lemma classify_answers:
  "predict m df = Inr (y # ys) \<Longrightarrow> predict_proba m df = Inr (pr # ps) \<Longrightarrow> 1 < length pr \<Longrightarrow>
     classify rnd m df = Inr (y, pr, rnd (pr ! 1 * 100))"
  by (simp add: classify_def getitem_def)

lemma classify_cong:
  assumes "predict m' df = predict m df" and "predict_proba m' df = predict_proba m df"
  shows "classify rnd m' df = classify rnd m df"
  unfolding classify_def assms ..

lemma run_on_classifier_error:
  assumes "input_data c = Inr d" and "prepare_frame d names = Inr df"
    and "classify rnd m df = Inl e"
  shows "predict_clicked rnd m names c =
     ([StError (PredictionError e),
       StInfo ''Please check that all features match your trained model.''], Completed)"
  using assms by (simp add: predict_clicked_def try_body_def except_handler_def)

lemma run_on_classifier_answer:
  assumes "input_data c = Inr d" and "prepare_frame d names = Inr df"
    and "classify rnd m df = Inr (y, pr, p)"
  shows "predict_clicked rnd m names c =
     (case show_results rnd c pr p of
        (shown, None) \<Rightarrow> (shown, Completed)
      | (shown, Some e) \<Rightarrow> (shown @ except_handler e, Completed))"
  using assms by (simp add: predict_clicked_def try_body_def)

lemma run_cong:
  assumes "input_data c = Inr d" and "prepare_frame d names = Inr df"
    and "predict m' df = predict m df" and "predict_proba m' df = predict_proba m df"
  shows "predict_clicked rnd m' names c = predict_clicked rnd m names c"
  unfolding predict_clicked_on_frame [OF assms(1,2)] try_body_def
    classify_cong [OF assms(3,4)] ..

lemma scenario_A_frame:
  "input_data scenario_A = Inr d \<Longrightarrow> prepare_frame d [''Age'', ''NotProduced'', ''CreditScore''] =
     Inr [(''Age'', 35), (''NotProduced'', 0), (''CreditScore'', 650)]"
  "input_data scenario_A = Inr d \<Longrightarrow> prepare_frame d [''Balance'', ''Age''] =
     Inr [(''Balance'', 75000), (''Age'', 35)]"
  "input_data scenario_A = Inr d \<Longrightarrow> prepare_frame d [''Age''] = Inr [(''Age'', 35)]"
  "input_data scenario_A = Inr d \<Longrightarrow> ''NotProduced'' \<notin> fst ` set d"
  "input_data scenario_A = Inr d \<Longrightarrow> ''Tenure'' \<in> fst ` set d"
  by (auto simp: scenario_A_row prepare_frame_eq)

text \<open>
  C4. Whenever the transform returns a dictionary, padding and reordering it for any trained
  name list returns without raising; the resulting row has exactly the trained list as its
  column order; every trained name the transform did not produce holds 0 and every other
  trained name holds the transform's value. This row is the one handed to inference: the
  run is decided by what \<open>predict\<close> and \<open>predict_proba\<close> answer on this row. If
  \<open>predict\<close> raises on it, or \<open>predict_proba\<close> does, the run shows that exception;
  if both answer on it, the run renders the results for the probabilities answered on it.
\<close>

theorem zero_fill_and_reorder:
  "age c \<noteq> - 1 \<and> estimated_salary c \<noteq> - 1 \<longrightarrow>
     (\<exists>d df. input_data c = Inr d \<and> prepare_frame d names = Inr df \<and>
        map fst df = names \<and>
        df = map (\<lambda>n. (n, case map_of d n of Some v \<Rightarrow> v | None \<Rightarrow> 0)) names \<and>
        (\<forall>n \<in> set names. n \<notin> fst ` set d \<longrightarrow> map_of df n = Some 0) \<and>
        (\<forall>e. predict m df = Inl e \<longrightarrow>
           predict_clicked rnd m names c =
             ([StError (PredictionError e),
               StInfo ''Please check that all features match your trained model.''],
              Completed)) \<and>
        (\<forall>y ys e. predict m df = Inr (y # ys) \<and> predict_proba m df = Inl e \<longrightarrow>
           predict_clicked rnd m names c =
             ([StError (PredictionError e),
               StInfo ''Please check that all features match your trained model.''],
              Completed)) \<and>
        (\<forall>y ys pr ps.
           predict m df = Inr (y # ys) \<and> predict_proba m df = Inr (pr # ps) \<and>
           1 < length pr \<longrightarrow>
           predict_clicked rnd m names c =
             (case show_results rnd c pr (rnd (pr ! 1 * 100)) of
                (shown, None) \<Rightarrow> (shown, Completed)
              | (shown, Some e) \<Rightarrow> (shown @ except_handler e, Completed))))"
proof
  assume "age c \<noteq> - 1 \<and> estimated_salary c \<noteq> - 1"
  then obtain d where d: "input_data c = Inr d"
    using input_data_returns [of c] by blast
  define df where "df = map (\<lambda>n. (n, case map_of d n of Some v \<Rightarrow> v | None \<Rightarrow> 0)) names"
  have p: "prepare_frame d names = Inr df"
    by (simp add: prepare_frame_eq df_def)
  have names: "map fst df = names"
    by (simp add: df_def comp_def)
  have zeros: "\<forall>n \<in> set names. n \<notin> fst ` set d \<longrightarrow> map_of df n = Some 0"
    by (simp add: df_def map_of_keyed_map not_column_iff)
  have call1: "\<forall>e. predict m df = Inl e \<longrightarrow>
           predict_clicked rnd m names c =
             ([StError (PredictionError e),
               StInfo ''Please check that all features match your trained model.''],
              Completed)"
    by (intro allI impI, rule run_on_classifier_error [OF d p],
        erule classify_predict_raises)
  have call2: "\<forall>y ys e. predict m df = Inr (y # ys) \<and> predict_proba m df = Inl e \<longrightarrow>
           predict_clicked rnd m names c =
             ([StError (PredictionError e),
               StInfo ''Please check that all features match your trained model.''],
              Completed)"
    by (intro allI impI, elim conjE, rule run_on_classifier_error [OF d p],
        erule (1) classify_proba_raises)
  have call3: "\<forall>y ys pr ps.
           predict m df = Inr (y # ys) \<and> predict_proba m df = Inr (pr # ps) \<and>
           1 < length pr \<longrightarrow>
           predict_clicked rnd m names c =
             (case show_results rnd c pr (rnd (pr ! 1 * 100)) of
                (shown, None) \<Rightarrow> (shown, Completed)
              | (shown, Some e) \<Rightarrow> (shown @ except_handler e, Completed))"
    by (intro allI impI, elim conjE, rule run_on_classifier_answer [OF d p],
        erule (2) classify_answers)
  show "\<exists>d df. input_data c = Inr d \<and> prepare_frame d names = Inr df \<and>
        map fst df = names \<and>
        df = map (\<lambda>n. (n, case map_of d n of Some v \<Rightarrow> v | None \<Rightarrow> 0)) names \<and>
        (\<forall>n \<in> set names. n \<notin> fst ` set d \<longrightarrow> map_of df n = Some 0) \<and>
        (\<forall>e. predict m df = Inl e \<longrightarrow>
           predict_clicked rnd m names c =
             ([StError (PredictionError e),
               StInfo ''Please check that all features match your trained model.''],
              Completed)) \<and>
        (\<forall>y ys e. predict m df = Inr (y # ys) \<and> predict_proba m df = Inl e \<longrightarrow>
           predict_clicked rnd m names c =
             ([StError (PredictionError e),
               StInfo ''Please check that all features match your trained model.''],
              Completed)) \<and>
        (\<forall>y ys pr ps.
           predict m df = Inr (y # ys) \<and> predict_proba m df = Inr (pr # ps) \<and>
           1 < length pr \<longrightarrow>
           predict_clicked rnd m names c =
             (case show_results rnd c pr (rnd (pr ! 1 * 100)) of
                (shown, None) \<Rightarrow> (shown, Completed)
              | (shown, Some e) \<Rightarrow> (shown @ except_handler e, Completed)))"
    by (rule exI [of _ d], rule exI [of _ df], intro conjI)
      (rule d p names zeros call1 call2 call3 df_def)+
qed

theorem zero_fill_and_reorder_witness:
  "age scenario_A \<noteq> - 1 \<and> estimated_salary scenario_A \<noteq> - 1 \<and>
   (\<exists>d. input_data scenario_A = Inr d \<and>
      ''NotProduced'' \<in> set [''Age'', ''NotProduced'', ''CreditScore''] \<and>
      ''NotProduced'' \<notin> fst ` set d \<and>
      prepare_frame d [''Age'', ''NotProduced'', ''CreditScore''] =
        Inr [(''Age'', 35), (''NotProduced'', 0), (''CreditScore'', 650)]) \<and>
   predict spy_model [(''Age'', 35), (''NotProduced'', 0), (''CreditScore'', 650)] =
     Inl (KeyError [''Age'', ''NotProduced'', ''CreditScore'']) \<and>
   predict_clicked exact spy_model [''Age'', ''NotProduced'', ''CreditScore''] scenario_A =
     ([StError (PredictionError (KeyError [''Age'', ''NotProduced'', ''CreditScore''])),
       StInfo ''Please check that all features match your trained model.''], Completed)"
proof -
  have ok: "age scenario_A \<noteq> - 1 \<and> estimated_salary scenario_A \<noteq> - 1"
    by (simp add: scenario_A_fields)
  note at_spy = zero_fill_and_reorder
    [of scenario_A "[''Age'', ''NotProduced'', ''CreditScore'']" spy_model exact,
      THEN mp, OF ok]
  obtain d df where d: "input_data scenario_A = Inr d"
    and p: "prepare_frame d [''Age'', ''NotProduced'', ''CreditScore''] = Inr df"
    and call: "\<forall>e. predict spy_model df = Inl e \<longrightarrow>
        predict_clicked exact spy_model [''Age'', ''NotProduced'', ''CreditScore''] scenario_A =
          ([StError (PredictionError e),
            StInfo ''Please check that all features match your trained model.''], Completed)"
    using at_spy by (elim exE conjE) (rule that, assumption+)
  have frame: "prepare_frame d [''Age'', ''NotProduced'', ''CreditScore''] =
      Inr [(''Age'', 35), (''NotProduced'', 0), (''CreditScore'', 650)]"
    by (rule scenario_A_frame(1) [OF d])
  have df: "df = [(''Age'', 35), (''NotProduced'', 0), (''CreditScore'', 650)]"
    using p frame by simp
  have spy: "predict spy_model [(''Age'', 35), (''NotProduced'', 0), (''CreditScore'', 650)] =
      Inl (KeyError [''Age'', ''NotProduced'', ''CreditScore''])"
    by (simp add: spy_model_def)
  have run: "predict_clicked exact spy_model [''Age'', ''NotProduced'', ''CreditScore'']
      scenario_A =
     ([StError (PredictionError (KeyError [''Age'', ''NotProduced'', ''CreditScore''])),
       StInfo ''Please check that all features match your trained model.''], Completed)"
    using call [unfolded df, rule_format, of "KeyError [''Age'', ''NotProduced'', ''CreditScore'']"]
      spy
    by simp
  have np: "''NotProduced'' \<in> set [''Age'', ''NotProduced'', ''CreditScore'']"
    by simp
  have part: "\<exists>d. input_data scenario_A = Inr d \<and>
      ''NotProduced'' \<in> set [''Age'', ''NotProduced'', ''CreditScore''] \<and>
      ''NotProduced'' \<notin> fst ` set d \<and>
      prepare_frame d [''Age'', ''NotProduced'', ''CreditScore''] =
        Inr [(''Age'', 35), (''NotProduced'', 0), (''CreditScore'', 650)]"
    by (rule exI [of _ d], intro conjI) (rule d np scenario_A_frame(4) [OF d] frame)+
  show ?thesis
    by (intro conjI) (rule ok [THEN conjunct1] ok [THEN conjunct2] part spy run)+
qed

text \<open>
  C9. Whenever the transform returns a dictionary, the row passed to inference has exactly
  the trained names as its columns, in the trained order: a name the transform produced
  that is not in the trained list is not a column of that row, the selection raises nothing,
  the trained names the transform produced keep their values, and removing the extra names
  from the dictionary beforehand gives the same row. This row is what both classifier
  methods receive: an exception either of them raises on it is the one the run shows, and
  two classifiers that answer alike on this row give the same run, whatever they answer
  on any other row.
\<close>

theorem inference_columns_exact:
  "age c \<noteq> - 1 \<and> estimated_salary c \<noteq> - 1 \<longrightarrow>
     (\<exists>d df. input_data c = Inr d \<and> prepare_frame d names = Inr df \<and>
        map fst df = names \<and>
        fst ` set df = set names \<and>
        (\<forall>n. n \<in> fst ` set d \<and> n \<notin> set names \<longrightarrow> n \<notin> fst ` set df) \<and>
        (\<forall>n \<in> set names. n \<in> fst ` set d \<longrightarrow> map_of df n = map_of d n) \<and>
        prepare_frame (filter (\<lambda>kv. fst kv \<in> set names) d) names = Inr df \<and>
        (\<forall>e. predict m df = Inl e \<longrightarrow>
           predict_clicked rnd m names c =
             ([StError (PredictionError e),
               StInfo ''Please check that all features match your trained model.''],
              Completed)) \<and>
        (\<forall>y ys e. predict m df = Inr (y # ys) \<and> predict_proba m df = Inl e \<longrightarrow>
           predict_clicked rnd m names c =
             ([StError (PredictionError e),
               StInfo ''Please check that all features match your trained model.''],
              Completed)) \<and>
        (\<forall>m'. predict m' df = predict m df \<and> predict_proba m' df = predict_proba m df \<longrightarrow>
           predict_clicked rnd m' names c = predict_clicked rnd m names c))"
proof
  assume "age c \<noteq> - 1 \<and> estimated_salary c \<noteq> - 1"
  then obtain d where d: "input_data c = Inr d"
    using input_data_returns [of c] by blast
  define df where "df = map (\<lambda>n. (n, case map_of d n of Some v \<Rightarrow> v | None \<Rightarrow> 0)) names"
  have p: "prepare_frame d names = Inr df"
    by (simp add: prepare_frame_eq df_def)
  have names: "map fst df = names"
    by (simp add: df_def comp_def)
  have cols: "fst ` set df = set names"
    by (auto simp: df_def image_iff)
  have kept: "\<forall>n \<in> set names. n \<in> fst ` set d \<longrightarrow> map_of df n = map_of d n"
    by (auto simp: df_def map_of_keyed_map not_column_iff split: option.splits)
  have "map (\<lambda>n. (n, case map_of (filter (\<lambda>kv. fst kv \<in> set names) d) n of
                        Some v \<Rightarrow> v | None \<Rightarrow> 0)) names = df"
    unfolding df_def by (rule map_cong) (simp_all add: map_of_filter_keys)
  then have same: "prepare_frame (filter (\<lambda>kv. fst kv \<in> set names) d) names = Inr df"
    by (simp add: prepare_frame_eq)
  have call1: "\<forall>e. predict m df = Inl e \<longrightarrow>
           predict_clicked rnd m names c =
             ([StError (PredictionError e),
               StInfo ''Please check that all features match your trained model.''],
              Completed)"
    by (intro allI impI, rule run_on_classifier_error [OF d p],
        erule classify_predict_raises)
  have call2: "\<forall>y ys e. predict m df = Inr (y # ys) \<and> predict_proba m df = Inl e \<longrightarrow>
           predict_clicked rnd m names c =
             ([StError (PredictionError e),
               StInfo ''Please check that all features match your trained model.''],
              Completed)"
    by (intro allI impI, elim conjE, rule run_on_classifier_error [OF d p],
        erule (1) classify_proba_raises)
  have only: "\<forall>m'. predict m' df = predict m df \<and> predict_proba m' df = predict_proba m df \<longrightarrow>
           predict_clicked rnd m' names c = predict_clicked rnd m names c"
    by (intro allI impI, elim conjE, erule (1) run_cong [OF d p])
  have extras: "\<forall>n. n \<in> fst ` set d \<and> n \<notin> set names \<longrightarrow> n \<notin> fst ` set df"
    using cols by simp
  show "\<exists>d df. input_data c = Inr d \<and> prepare_frame d names = Inr df \<and>
        map fst df = names \<and>
        fst ` set df = set names \<and>
        (\<forall>n. n \<in> fst ` set d \<and> n \<notin> set names \<longrightarrow> n \<notin> fst ` set df) \<and>
        (\<forall>n \<in> set names. n \<in> fst ` set d \<longrightarrow> map_of df n = map_of d n) \<and>
        prepare_frame (filter (\<lambda>kv. fst kv \<in> set names) d) names = Inr df \<and>
        (\<forall>e. predict m df = Inl e \<longrightarrow>
           predict_clicked rnd m names c =
             ([StError (PredictionError e),
               StInfo ''Please check that all features match your trained model.''],
              Completed)) \<and>
        (\<forall>y ys e. predict m df = Inr (y # ys) \<and> predict_proba m df = Inl e \<longrightarrow>
           predict_clicked rnd m names c =
             ([StError (PredictionError e),
               StInfo ''Please check that all features match your trained model.''],
              Completed)) \<and>
        (\<forall>m'. predict m' df = predict m df \<and> predict_proba m' df = predict_proba m df \<longrightarrow>
           predict_clicked rnd m' names c = predict_clicked rnd m names c)"
    by (rule exI [of _ d], rule exI [of _ df], intro conjI)
      (rule d p names cols extras kept same call1 call2 only)+
qed

theorem inference_columns_exact_witness:
  "age scenario_A \<noteq> - 1 \<and> estimated_salary scenario_A \<noteq> - 1 \<and>
   (\<exists>d. input_data scenario_A = Inr d \<and>
      prepare_frame d [''Balance'', ''Age''] = Inr [(''Balance'', 75000), (''Age'', 35)] \<and>
      ''Tenure'' \<in> fst ` set d \<and>
      ''Tenure'' \<notin> fst ` set [(''Balance'', 75000 :: real), (''Age'', 35)]) \<and>
   predict proba_spy_model [(''Balance'', 75000), (''Age'', 35)] = Inr [0] \<and>
   predict_proba proba_spy_model [(''Balance'', 75000), (''Age'', 35)] =
     Inl (KeyError [''Balance'', ''Age'']) \<and>
   predict_clicked exact proba_spy_model [''Balance'', ''Age''] scenario_A =
     ([StError (PredictionError (KeyError [''Balance'', ''Age''])),
       StInfo ''Please check that all features match your trained model.''], Completed) \<and>
   predict_clicked exact frame_sensitive_model [''Balance'', ''Age''] scenario_A =
     predict_clicked exact steady_model [''Balance'', ''Age''] scenario_A"
proof -
  have ok: "age scenario_A \<noteq> - 1 \<and> estimated_salary scenario_A \<noteq> - 1"
    by (simp add: scenario_A_fields)
  note at_spy = inference_columns_exact
    [of scenario_A "[''Balance'', ''Age'']" proba_spy_model exact, THEN mp, OF ok]
  note at_steady = inference_columns_exact
    [of scenario_A "[''Balance'', ''Age'']" steady_model exact, THEN mp, OF ok]
  obtain d df where d: "input_data scenario_A = Inr d"
    and p: "prepare_frame d [''Balance'', ''Age''] = Inr df"
    and extra: "\<forall>n. n \<in> fst ` set d \<and> n \<notin> set [''Balance'', ''Age''] \<longrightarrow> n \<notin> fst ` set df"
    and call: "\<forall>y ys e. predict proba_spy_model df = Inr (y # ys) \<and>
        predict_proba proba_spy_model df = Inl e \<longrightarrow>
        predict_clicked exact proba_spy_model [''Balance'', ''Age''] scenario_A =
          ([StError (PredictionError e),
            StInfo ''Please check that all features match your trained model.''], Completed)"
    using at_spy by (elim exE conjE) (rule that, assumption+)
  obtain d' df' where d': "input_data scenario_A = Inr d'"
    and p': "prepare_frame d' [''Balance'', ''Age''] = Inr df'"
    and only: "\<forall>m'. predict m' df' = predict steady_model df' \<and>
        predict_proba m' df' = predict_proba steady_model df' \<longrightarrow>
        predict_clicked exact m' [''Balance'', ''Age''] scenario_A =
          predict_clicked exact steady_model [''Balance'', ''Age''] scenario_A"
    using at_steady by (elim exE conjE) (rule that, assumption+)
  have frame: "prepare_frame d [''Balance'', ''Age''] =
      Inr [(''Balance'', 75000), (''Age'', 35)]"
    by (rule scenario_A_frame(2) [OF d])
  have df: "df = [(''Balance'', 75000), (''Age'', 35)]"
    using p frame by simp
  have df': "df' = [(''Balance'', 75000), (''Age'', 35)]"
    using p' scenario_A_frame(2) [OF d'] by simp
  have spy1: "predict proba_spy_model [(''Balance'', 75000), (''Age'', 35)] = Inr [0]"
    by (simp add: proba_spy_model_def)
  have spy2: "predict_proba proba_spy_model [(''Balance'', 75000), (''Age'', 35)] =
      Inl (KeyError [''Balance'', ''Age''])"
    by (simp add: proba_spy_model_def)
  have run: "predict_clicked exact proba_spy_model [''Balance'', ''Age''] scenario_A =
     ([StError (PredictionError (KeyError [''Balance'', ''Age''])),
       StInfo ''Please check that all features match your trained model.''], Completed)"
    using call [unfolded df, rule_format, of 0 "[]" "KeyError [''Balance'', ''Age'']"]
      spy1 spy2
    by simp
  have agree: "predict frame_sensitive_model [(''Balance'', 75000), (''Age'', 35)] =
        predict steady_model [(''Balance'', 75000), (''Age'', 35)] \<and>
      predict_proba frame_sensitive_model [(''Balance'', 75000), (''Age'', 35)] =
        predict_proba steady_model [(''Balance'', 75000), (''Age'', 35)]"
    by (simp add: frame_sensitive_model_def steady_model_def)
  have same: "predict_clicked exact frame_sensitive_model [''Balance'', ''Age''] scenario_A =
     predict_clicked exact steady_model [''Balance'', ''Age''] scenario_A"
    using only [unfolded df', rule_format, of frame_sensitive_model] agree by simp
  have tenure: "''Tenure'' \<in> fst ` set d"
    by (rule scenario_A_frame(5) [OF d])
  have gone: "''Tenure'' \<notin> fst ` set [(''Balance'', 75000 :: real), (''Age'', 35)]"
    using extra [unfolded df, rule_format, of "''Tenure''"] tenure by simp
  have part: "\<exists>d. input_data scenario_A = Inr d \<and>
      prepare_frame d [''Balance'', ''Age''] = Inr [(''Balance'', 75000), (''Age'', 35)] \<and>
      ''Tenure'' \<in> fst ` set d \<and>
      ''Tenure'' \<notin> fst ` set [(''Balance'', 75000 :: real), (''Age'', 35)]"
    by (rule exI [of _ d], intro conjI) (rule d frame tenure gone)+
  show ?thesis
    by (intro conjI)
      (rule ok [THEN conjunct1] ok [THEN conjunct2] part spy1 spy2 run same)+
qed

text \<open>
  C7. For every record within the widget ranges the three divisors are strictly positive
  (Age + 1 is at least 19, NumOfProducts + 0.01 at least 1.01, EstimatedSalary + 1 at least
  1), none of the three divisions raises, the transform returns, and each ratio lies between
  0 and 300000.
\<close>

theorem ratios_defined_in_range:
  "widget_ranges c \<longrightarrow>
     (19::real) \<le> of_int (age c + 1) \<and>
     (101 / 100 :: real) \<le> of_int (num_products c) + 1 / 100 \<and>
     1 \<le> estimated_salary c + 1 \<and>
     truediv (of_int (tenure c)) (of_int (age c + 1)) =
       Inr (of_int (tenure c) / of_int (age c + 1)) \<and>
     truediv (balance c) (of_int (num_products c) + 1 / 100) =
       Inr (balance c / (of_int (num_products c) + 1 / 100)) \<and>
     truediv (balance c) (estimated_salary c + 1) =
       Inr (balance c / (estimated_salary c + 1)) \<and>
     0 \<le> of_int (tenure c) / (of_int (age c + 1) :: real) \<and>
     of_int (tenure c) / (of_int (age c + 1) :: real) \<le> 300000 \<and>
     0 \<le> balance c / (of_int (num_products c) + 1 / 100) \<and>
     balance c / (of_int (num_products c) + 1 / 100) \<le> 300000 \<and>
     0 \<le> balance c / (estimated_salary c + 1) \<and>
     balance c / (estimated_salary c + 1) \<le> 300000 \<and>
     (\<exists>d. input_data c = Inr d)"
proof
  assume w: "widget_ranges c"
  have a: "(19::real) \<le> of_int (age c + 1)"
    using w by (simp add: widget_ranges_def)
  have n1: "1 \<le> num_products c"
    using w by (auto simp: widget_ranges_def)
  then have "(1::real) \<le> of_int (num_products c)" by simp
  then have n: "(101 / 100 :: real) \<le> of_int (num_products c) + 1 / 100" by simp
  have s: "1 \<le> estimated_salary c + 1"
    using w by (simp add: widget_ranges_def)
  have t: "(0::real) \<le> of_int (tenure c)" "(of_int (tenure c) :: real) \<le> 10"
    using w by (simp_all add: widget_ranges_def)
  have b: "0 \<le> balance c" "balance c \<le> 300000"
    using w by (simp_all add: widget_ranges_def)
  have quot: "0 \<le> x / y \<and> x / y \<le> 300000"
    if "0 \<le> x" and "x \<le> 300000" and "1 \<le> y" for x y :: real
  proof -
    have "x / y \<le> x / 1"
      using that by (intro divide_left_mono) simp_all
    then show ?thesis using that by simp
  qed
  have r1: "0 \<le> of_int (tenure c) / (of_int (age c + 1) :: real) \<and>
            of_int (tenure c) / (of_int (age c + 1) :: real) \<le> 300000"
    using t a by (intro quot) simp_all
  have r2: "0 \<le> balance c / (of_int (num_products c) + 1 / 100) \<and>
            balance c / (of_int (num_products c) + 1 / 100) \<le> 300000"
    using b n by (intro quot) simp_all
  have r3: "0 \<le> balance c / (estimated_salary c + 1) \<and>
            balance c / (estimated_salary c + 1) \<le> 300000"
    using b s by (intro quot) simp_all
  have d1: "truediv (of_int (tenure c)) (of_int (age c + 1)) =
       Inr (of_int (tenure c) / of_int (age c + 1))"
    using a by (simp add: truediv_def)
  have d2: "truediv (balance c) (of_int (num_products c) + 1 / 100) =
       Inr (balance c / (of_int (num_products c) + 1 / 100))"
    by (simp only: truediv_def products_offset_nonzero if_False)
  have d3: "truediv (balance c) (estimated_salary c + 1) =
       Inr (balance c / (estimated_salary c + 1))"
    using s by (simp add: truediv_def)
  have ret: "\<exists>d. input_data c = Inr d"
    using input_data_returns [OF widget_ranges_no_raise [OF w]] by blast
  from a n s d1 d2 d3 r1 r2 r3 ret
  show "(19::real) \<le> of_int (age c + 1) \<and>
     (101 / 100 :: real) \<le> of_int (num_products c) + 1 / 100 \<and>
     1 \<le> estimated_salary c + 1 \<and>
     truediv (of_int (tenure c)) (of_int (age c + 1)) =
       Inr (of_int (tenure c) / of_int (age c + 1)) \<and>
     truediv (balance c) (of_int (num_products c) + 1 / 100) =
       Inr (balance c / (of_int (num_products c) + 1 / 100)) \<and>
     truediv (balance c) (estimated_salary c + 1) =
       Inr (balance c / (estimated_salary c + 1)) \<and>
     0 \<le> of_int (tenure c) / (of_int (age c + 1) :: real) \<and>
     of_int (tenure c) / (of_int (age c + 1) :: real) \<le> 300000 \<and>
     0 \<le> balance c / (of_int (num_products c) + 1 / 100) \<and>
     balance c / (of_int (num_products c) + 1 / 100) \<le> 300000 \<and>
     0 \<le> balance c / (estimated_salary c + 1) \<and>
     balance c / (estimated_salary c + 1) \<le> 300000 \<and>
     (\<exists>d. input_data c = Inr d)"
    by blast
qed

theorem ratios_defined_in_range_witness:
  "widget_ranges scenario_A \<and>
   truediv (of_int (tenure scenario_A)) (of_int (age scenario_A + 1)) = Inr (5 / 36) \<and>
   truediv (balance scenario_A) (of_int (num_products scenario_A) + 1 / 100) =
     Inr (7500000 / 101) \<and>
   truediv (balance scenario_A) (estimated_salary scenario_A + 1) = Inr (75000 / 60001) \<and>
   (\<exists>d. input_data scenario_A = Inr d)"
  using ratios_defined_in_range [of scenario_A] scenario_A_in_range
  by (simp add: scenario_A_fields)

subsection \<open>Auxiliary facts about the risk factors\<close>

lemma risk_factors_refine: "risk_factors c = risk_factors_spec c"
  by (simp add: risk_factors_def risk_factors_spec_def risk_rules_spec_def Let_def)

lemma scenario_B_fields:
  "age scenario_B = 55" "geography scenario_B = Germany" "num_products scenario_B = 4"
  "\<not> is_active scenario_B" "tenure scenario_B = 10" "balance scenario_B = 75000"
  by (simp_all add: scenario_B_def)

text \<open>
  C6. The emitted risk factors are the explanations of exactly those of the six rules
  (Age > 45, Germany, NumOfProducts >= 3, not active, Balance = 0, Tenure < 2) that hold,
  in this rule order; when no rule holds the text "No significant risk factors identified"
  is rendered instead, otherwise one line per factor; and a record with Age 55, Germany,
  4 products, inactive, Tenure 10 and a non-zero balance gets exactly the four factors
  age, Germany, products, inactive.
\<close>

theorem risk_factor_list:
  "risk_factors c = risk_factors_spec c \<and>
   render_risk_factors (risk_factors c) =
     (if \<not> (age c > 45 \<or> geography c = Germany \<or> num_products c \<ge> 3 \<or>
            \<not> is_active c \<or> balance c = 0 \<or> tenure c < 2)
      then [StMarkdown ''No significant risk factors identified'']
      else map StMarkdown (risk_factors_spec c)) \<and>
   (age c = 55 \<and> geography c = Germany \<and> num_products c = 4 \<and> \<not> is_active c \<and>
    tenure c = 10 \<and> balance c \<noteq> 0 \<longrightarrow>
      risk_factors c =
        [bullet @ '' Age above 45 (higher churn correlation)'',
         bullet @ '' Located in Germany (highest churn region)'',
         bullet @ '' Has 3+ products (potential over-complexity)'',
         bullet @ '' Inactive member (low engagement)''])"
proof (intro conjI impI)
  show "risk_factors c = risk_factors_spec c"
    by (rule risk_factors_refine)
  show "render_risk_factors (risk_factors c) =
     (if \<not> (age c > 45 \<or> geography c = Germany \<or> num_products c \<ge> 3 \<or>
            \<not> is_active c \<or> balance c = 0 \<or> tenure c < 2)
      then [StMarkdown ''No significant risk factors identified'']
      else map StMarkdown (risk_factors_spec c))"
    unfolding risk_factors_refine render_risk_factors_def
    by (auto simp: risk_factors_spec_def risk_rules_spec_def)
next
  assume "age c = 55 \<and> geography c = Germany \<and> num_products c = 4 \<and> \<not> is_active c \<and>
    tenure c = 10 \<and> balance c \<noteq> 0"
  then show "risk_factors c =
        [bullet @ '' Age above 45 (higher churn correlation)'',
         bullet @ '' Located in Germany (highest churn region)'',
         bullet @ '' Has 3+ products (potential over-complexity)'',
         bullet @ '' Inactive member (low engagement)'']"
    by (simp add: risk_factors_def)
qed

theorem risk_factor_list_witness:
  "age scenario_B = 55 \<and> geography scenario_B = Germany \<and> num_products scenario_B = 4 \<and>
   \<not> is_active scenario_B \<and> tenure scenario_B = 10 \<and> balance scenario_B \<noteq> 0 \<and>
   risk_factors scenario_B =
     [bullet @ '' Age above 45 (higher churn correlation)'',
      bullet @ '' Located in Germany (highest churn region)'',
      bullet @ '' Has 3+ products (potential over-complexity)'',
      bullet @ '' Inactive member (low engagement)''] \<and>
   render_risk_factors (risk_factors scenario_A) =
     [StMarkdown ''No significant risk factors identified'']"
proof -
  have b: "age scenario_B = 55 \<and> geography scenario_B = Germany \<and>
      num_products scenario_B = 4 \<and> \<not> is_active scenario_B \<and> tenure scenario_B = 10 \<and>
      balance scenario_B \<noteq> 0"
    by (simp add: scenario_B_fields)
  have a: "\<not> (age scenario_A > 45 \<or> geography scenario_A = Germany \<or>
      num_products scenario_A \<ge> 3 \<or> \<not> is_active scenario_A \<or> balance scenario_A = 0 \<or>
      tenure scenario_A < 2)"
    by (simp add: scenario_A_fields)
  have "render_risk_factors (risk_factors scenario_A) =
      [StMarkdown ''No significant risk factors identified'']"
    using risk_factor_list [of scenario_A, THEN conjunct2, THEN conjunct1] a by simp
  then show ?thesis
    using risk_factor_list [of scenario_B] b by blast
qed

text \<open>
  C10. For every churn probability the recommendation headline agrees with the risk level:
  the urgent-action headline is chosen exactly when the level is HIGH RISK, the
  proactive-engagement headline exactly when it is MEDIUM RISK, and the
  standard-engagement headline exactly when it is LOW RISK.
\<close>

theorem recommendation_matches_tier:
  "(risk_level (risk_determination p) = ''HIGH RISK'' \<longleftrightarrow>
      recommendation p = StError (Literal ''**URGENT ACTION REQUIRED**'')) \<and>
   (risk_level (risk_determination p) = ''MEDIUM RISK'' \<longleftrightarrow>
      recommendation p = StWarning ''**PROACTIVE ENGAGEMENT RECOMMENDED**'') \<and>
   (risk_level (risk_determination p) = ''LOW RISK'' \<longleftrightarrow>
      recommendation p = StSuccess ''**STANDARD ENGAGEMENT**'')"
  by (simp add: risk_determination_def recommendation_def)

theorem recommendation_matches_tier_witness:
  "recommendation 70 = StError (Literal ''**URGENT ACTION REQUIRED**'') \<and>
   recommendation 40 = StWarning ''**PROACTIVE ENGAGEMENT RECOMMENDED**'' \<and>
   recommendation 39 = StSuccess ''**STANDARD ENGAGEMENT**''"
proof -
  have "risk_level (risk_determination 70) = ''HIGH RISK''"
    "risk_level (risk_determination 40) = ''MEDIUM RISK''"
    "risk_level (risk_determination 39) = ''LOW RISK''"
    by (simp_all add: risk_determination_def)
  then show ?thesis
    using recommendation_matches_tier [of 70] recommendation_matches_tier [of 40]
      recommendation_matches_tier [of 39]
    by blast
qed

subsection \<open>Auxiliary facts about a prediction run\<close>

lemma predict_clicked_completes:
  assumes "input_data c = Inr d"
  shows "snd (predict_clicked rnd m names c) = Completed"
proof -
  obtain df where df: "prepare_frame d names = Inr df"
    by (simp add: prepare_frame_eq)
  obtain shown r where t: "try_body rnd m df c = (shown, r)"
    by (cases "try_body rnd m df c")
  show ?thesis
    unfolding predict_clicked_on_frame [OF assms df] t
    by (cases r) simp_all
qed

lemma transform_outside_try:
  "input_data c = Inl e \<Longrightarrow> predict_clicked rnd m names c = ([], Uncaught e)"
  by (simp add: predict_clicked_def)

lemma app_after_load:
  assumes "load_model fs = (opened, Returned m names)"
  shows "app rnd fs c True =
     (opened, InputForm # fst (predict_clicked rnd m names c),
      snd (predict_clicked rnd m names c))"
  using assms by (simp add: app_def split: prod.splits)

lemma failing_model_files_load:
  "load_model failing_model_files =
     ([''customer_churn_rf_model.pkl'', ''model_features.pkl''],
      Returned failing_model [''Age''])"
  by (simp add: load_model_def open_and_load_def failing_model_files_def)

text \<open>
  C3. For every record within the widget ranges, the feature transform and the padding and
  reordering raise nothing, and any exception raised during classification
  (\<open>model.predict\<close>, \<open>model.predict_proba\<close> or the indexing of their results) is caught:
  the run renders exactly the error message carrying that exception and the hint, no
  prediction output, and ends normally, never with an uncaught exception. A run of the whole
  script whose artifacts loaded renders the input form and ends normally as well.
\<close>

theorem inference_failure_recovered:
  "widget_ranges c \<longrightarrow>
     (\<exists>d df. input_data c = Inr d \<and> prepare_frame d names = Inr df \<and>
        (\<forall>e. classify rnd m df = Inl e \<longrightarrow>
           predict_clicked rnd m names c =
             ([StError (PredictionError e),
               StInfo ''Please check that all features match your trained model.''],
              Completed)) \<and>
        (\<forall>e. predict m df = Inl e \<longrightarrow> classify rnd m df = Inl e) \<and>
        (\<forall>y ys e. predict m df = Inr (y # ys) \<and> predict_proba m df = Inl e \<longrightarrow>
           classify rnd m df = Inl e)) \<and>
     snd (predict_clicked rnd m names c) = Completed \<and>
     (\<forall>e. snd (predict_clicked rnd m names c) \<noteq> Uncaught e) \<and>
     (\<forall>fs opened. load_model fs = (opened, Returned m names) \<longrightarrow>
        fst (snd (app rnd fs c True)) = InputForm # fst (predict_clicked rnd m names c) \<and>
        snd (snd (app rnd fs c True)) = Completed)"
proof
  assume w: "widget_ranges c"
  obtain d where d: "input_data c = Inr d"
    using input_data_returns [OF widget_ranges_no_raise [OF w]] by blast
  obtain df where p: "prepare_frame d names = Inr df"
    by (simp add: prepare_frame_eq)
  have caught: "\<forall>e. classify rnd m df = Inl e \<longrightarrow>
           predict_clicked rnd m names c =
             ([StError (PredictionError e),
               StInfo ''Please check that all features match your trained model.''],
              Completed)"
    by (intro allI impI, erule run_on_classifier_error [OF d p])
  have r1: "\<forall>e. predict m df = Inl e \<longrightarrow> classify rnd m df = Inl e"
    by (intro allI impI, erule classify_predict_raises)
  have r2: "\<forall>y ys e. predict m df = Inr (y # ys) \<and> predict_proba m df = Inl e \<longrightarrow>
           classify rnd m df = Inl e"
    by (intro allI impI, elim conjE, erule (1) classify_proba_raises)
  have fin: "snd (predict_clicked rnd m names c) = Completed"
    using d by (rule predict_clicked_completes)
  then have never: "\<forall>e. snd (predict_clicked rnd m names c) \<noteq> Uncaught e"
    by simp
  have whole: "\<forall>fs opened. load_model fs = (opened, Returned m names) \<longrightarrow>
        fst (snd (app rnd fs c True)) = InputForm # fst (predict_clicked rnd m names c) \<and>
        snd (snd (app rnd fs c True)) = Completed"
    using fin by (simp add: app_after_load)
  have first: "\<exists>d df. input_data c = Inr d \<and> prepare_frame d names = Inr df \<and>
        (\<forall>e. classify rnd m df = Inl e \<longrightarrow>
           predict_clicked rnd m names c =
             ([StError (PredictionError e),
               StInfo ''Please check that all features match your trained model.''],
              Completed)) \<and>
        (\<forall>e. predict m df = Inl e \<longrightarrow> classify rnd m df = Inl e) \<and>
        (\<forall>y ys e. predict m df = Inr (y # ys) \<and> predict_proba m df = Inl e \<longrightarrow>
           classify rnd m df = Inl e)"
    by (rule exI [of _ d], rule exI [of _ df], intro conjI) (rule d p caught r1 r2)+
  show "(\<exists>d df. input_data c = Inr d \<and> prepare_frame d names = Inr df \<and>
        (\<forall>e. classify rnd m df = Inl e \<longrightarrow>
           predict_clicked rnd m names c =
             ([StError (PredictionError e),
               StInfo ''Please check that all features match your trained model.''],
              Completed)) \<and>
        (\<forall>e. predict m df = Inl e \<longrightarrow> classify rnd m df = Inl e) \<and>
        (\<forall>y ys e. predict m df = Inr (y # ys) \<and> predict_proba m df = Inl e \<longrightarrow>
           classify rnd m df = Inl e)) \<and>
     snd (predict_clicked rnd m names c) = Completed \<and>
     (\<forall>e. snd (predict_clicked rnd m names c) \<noteq> Uncaught e) \<and>
     (\<forall>fs opened. load_model fs = (opened, Returned m names) \<longrightarrow>
        fst (snd (app rnd fs c True)) = InputForm # fst (predict_clicked rnd m names c) \<and>
        snd (snd (app rnd fs c True)) = Completed)"
    by (intro conjI) (rule first fin never whole)+
qed

theorem inference_failure_recovered_witness:
  "widget_ranges scenario_A \<and>
   predict failing_model [(''Age'', 35)] = Inl (ArtifactError ''feature names mismatch'') \<and>
   predict_clicked exact failing_model [''Age''] scenario_A =
     ([StError (PredictionError (ArtifactError ''feature names mismatch'')),
       StInfo ''Please check that all features match your trained model.''], Completed) \<and>
   app exact failing_model_files scenario_A True =
     ([''customer_churn_rf_model.pkl'', ''model_features.pkl''],
      [InputForm,
       StError (PredictionError (ArtifactError ''feature names mismatch'')),
       StInfo ''Please check that all features match your trained model.''], Completed)"
proof -
  note w = scenario_A_in_range
  note at_failing = inference_failure_recovered
    [of scenario_A "[''Age'']" exact failing_model, THEN mp, OF w]
  note whole = at_failing [THEN conjunct2, THEN conjunct2, THEN conjunct2, rule_format,
      OF failing_model_files_load]
  obtain d df where d: "input_data scenario_A = Inr d"
    and p: "prepare_frame d [''Age''] = Inr df"
    and caught: "\<forall>e. classify exact failing_model df = Inl e \<longrightarrow>
        predict_clicked exact failing_model [''Age''] scenario_A =
          ([StError (PredictionError e),
            StInfo ''Please check that all features match your trained model.''], Completed)"
    and r1: "\<forall>e. predict failing_model df = Inl e \<longrightarrow>
        classify exact failing_model df = Inl e"
    using at_failing [THEN conjunct1] by (elim exE conjE) (rule that, assumption+)
  have raised: "predict failing_model [(''Age'', 35)] =
      Inl (ArtifactError ''feature names mismatch'')"
    by (simp add: failing_model_def)
  have "predict failing_model df = Inl (ArtifactError ''feature names mismatch'')"
    by (simp add: failing_model_def)
  then have "classify exact failing_model df = Inl (ArtifactError ''feature names mismatch'')"
    by (rule r1 [rule_format])
  then have run: "predict_clicked exact failing_model [''Age''] scenario_A =
     ([StError (PredictionError (ArtifactError ''feature names mismatch'')),
       StInfo ''Please check that all features match your trained model.''], Completed)"
    by (rule caught [rule_format])
  have opened: "fst (app exact failing_model_files scenario_A True) =
      [''customer_churn_rf_model.pkl'', ''model_features.pkl'']"
    by (simp add: app_def failing_model_files_load split: prod.splits)
  have whole_run: "app exact failing_model_files scenario_A True =
     ([''customer_churn_rf_model.pkl'', ''model_features.pkl''],
      [InputForm,
       StError (PredictionError (ArtifactError ''feature names mismatch'')),
       StInfo ''Please check that all features match your trained model.''], Completed)"
    using opened whole by (simp add: prod_eq_iff run)
  show ?thesis
    by (intro conjI) (rule w raised run whole_run)+
qed




end
